theory Spec2Isabelle
  imports Main "HOL-Library.AList"
begin

section \<open>Python strings and regular expressions used by the file system\<close>

text \<open>
  Paths are Python \<open>str\<close> values, modelled as \<^typ>\<open>string\<close>.  The helpers below are the
  string methods and the three regular expressions of \<open>file_system_structure.py\<close>.
\<close>

abbreviation slash :: char where "slash \<equiv> CHR ''/''"
abbreviation newline :: char where "newline \<equiv> CHR 0x0A"
abbreviation backslash :: char where "backslash \<equiv> CHR 0x5C"

definition startswith :: "string \<Rightarrow> string \<Rightarrow> bool" where
  "startswith s p = (take (length p) s = p)"

definition endswith :: "string \<Rightarrow> string \<Rightarrow> bool" where
  "endswith s p = (length p \<le> length s \<and> drop (length s - length p) s = p)"

text \<open>\<open>s.rstrip("/")\<close> and \<open>s.strip("/")\<close>: every separator at the end (at both ends) goes.\<close>

definition rstrip_slash :: "string \<Rightarrow> string" where
  "rstrip_slash s = rev (dropWhile (\<lambda>c. c = slash) (rev s))"

definition strip_slash :: "string \<Rightarrow> string" where
  "strip_slash s = dropWhile (\<lambda>c. c = slash) (rstrip_slash s)"

text \<open>\<open>s.split(c)\<close>: the empty string splits into one empty part.\<close>

fun split_str :: "char \<Rightarrow> string \<Rightarrow> string list" where
  "split_str c [] = [[]]"
| "split_str c (x # xs) =
     (if x = c then [] # split_str c xs
      else (case split_str c xs of
              [] \<Rightarrow> [[x]]
            | w # ws \<Rightarrow> (x # w) # ws))"

fun join_str :: "char \<Rightarrow> string list \<Rightarrow> string" where
  "join_str c [] = []"
| "join_str c [l] = l"
| "join_str c (l # ls) = l @ c # join_str c ls"

text \<open>The part of a line before, and from, its last separator.\<close>

definition before_last_slash :: "string \<Rightarrow> string" where
  "before_last_slash l = rev (tl (dropWhile (\<lambda>c. c \<noteq> slash) (rev l)))"

definition from_last_slash :: "string \<Rightarrow> string" where
  "from_last_slash l = slash # rev (takeWhile (\<lambda>c. c \<noteq> slash) (rev l))"

text \<open>
  \<open>re.search(r".*(?=\/(?!.*\/))", s)\<close>.  The dot does not match a newline, so the pattern
  matches inside one line: the line's text before its last separator.  The search takes
  the leftmost match, which is in the first line that has a separator.  \<open>None\<close> is
  Python's \<open>None\<close> (no match).
\<close>

definition re_parent_path :: "string \<Rightarrow> string option" where
  "re_parent_path s =
     (case filter (\<lambda>l. slash \<in> set l) (split_str newline s) of
        [] \<Rightarrow> None
      | l # _ \<Rightarrow> Some (before_last_slash l))"

text \<open>
  \<open>re.search(r"\/(?!.*\/).*$", s)\<close>.  The match starts at the last separator of a line and
  runs to the end of that line, where \<open>$\<close> must hold: at the end of the string or before
  a final newline.  So only the string's last line counts, after one final newline is
  set aside.
\<close>

definition re_leaf :: "string \<Rightarrow> string option" where
  "re_leaf s =
     (let ls = split_str newline s;
          cand = (if 2 \<le> length ls \<and> last ls = [] then last (butlast ls) else last ls)
      in if slash \<in> set cand then Some (from_last_slash cand) else None)"

text \<open>
  \<open>re.sub(r"\/(?!.*\/).*", template, s)\<close>: in every line that has a separator, the text
  from the last separator to the end of the line is replaced.  A template without a
  backslash is literal text.  A template with a backslash goes through the escape
  processing of Python's \<open>re\<close> module, which is not code of this repository: it is the
  parameter \<open>tmpl\<close>, giving \<open>None\<close> where \<open>re\<close> raises and otherwise the replacement as a
  function of the matched text.
\<close>

definition re_sub_leaf ::
  "(string \<Rightarrow> (string \<Rightarrow> string) option) \<Rightarrow> string \<Rightarrow> string \<Rightarrow> string option" where
  "re_sub_leaf tmpl template s =
     (case (if backslash \<in> set template then tmpl template else Some (\<lambda>m. template)) of
        None \<Rightarrow> None
      | Some f \<Rightarrow>
          Some (join_str newline
            (map (\<lambda>l. if slash \<in> set l then before_last_slash l @ f (from_last_slash l) else l)
               (split_str newline s))))"

section \<open>Nodes and the object store\<close>

text \<open>
  Node objects are shared: a node is referenced from its parent's \<open>children\<close>, from the
  children's \<open>parent\<close> attribute and from the traversal cache.  Objects live in a store,
  the list of all objects made so far; a reference is an address, the object's index in
  the store, and a new object goes to the end of the list.  \<open>datetime.now()\<close> is a counter that
  is read and advanced at each call.  Content is \<open>bytes\<close> or \<open>str\<close> (the default argument
  of \<open>create_file\<close> is the \<open>str\<close> \<open>''\<close>); bytes are numbers below 256 and a \<open>str\<close> is a list
  of code points.  A Python \<open>dict\<close> is an association list in insertion order.
\<close>

type_synonym addr = nat
type_synonym time = nat

datatype content = Bytes "nat list" | Text "nat list"

fun len :: "content \<Rightarrow> nat" where
  "len (Bytes bs) = length bs"
| "len (Text cs) = length cs"

datatype node_kind =
    FileNode content nat
  | DirectoryNode "(string \<times> addr) list"

record node =
  name :: string
  parent :: "addr option"
  created :: time
  modified :: time
  accessed :: time
  kind :: node_kind

record vfs =
  heap :: "node list"
  clock :: time
  root :: addr
  traversal_cache :: "(string \<times> addr) list"

datatype error =
    AttributeError
  | UnicodeDecodeError
  | UnicodeEncodeError
  | IndexError
  | RecursionError
  | ReError
  | DanglingReference

text \<open>\<open>DanglingReference\<close> is no Python exception: it is the model's value where an
  address holds no object, which no Python reference does.\<close>

datatype metadata_field = Created | Modified | Accessed

fun set_field :: "metadata_field \<Rightarrow> time \<Rightarrow> node \<Rightarrow> node" where
  "set_field Created t n = n\<lparr>created := t\<rparr>"
| "set_field Modified t n = n\<lparr>modified := t\<rparr>"
| "set_field Accessed t n = n\<lparr>accessed := t\<rparr>"

text \<open>The object at an address, and an attribute assignment on it.\<close>

definition obj :: "vfs \<Rightarrow> addr \<Rightarrow> node option" where
  "obj s a = (if a < length (heap s) then Some (heap s ! a) else None)"

definition upd_node :: "addr \<Rightarrow> (node \<Rightarrow> node) \<Rightarrow> vfs \<Rightarrow> vfs" where
  "upd_node a f s =
     (case obj s a of
        None \<Rightarrow> s
      | Some n \<Rightarrow> s\<lparr>heap := (heap s)[a := f n]\<rparr>)"

text \<open>\<open>FileSystemNode.update_timestamp_metadata\<close>: \<open>setattr(self, field, datetime.now())\<close>.\<close>

definition update_timestamp_metadata :: "addr \<Rightarrow> metadata_field \<Rightarrow> vfs \<Rightarrow> vfs" where
  "update_timestamp_metadata a f s =
     (upd_node a (set_field f (clock s)) s)\<lparr>clock := Suc (clock s)\<rparr>"

text \<open>\<open>FileSystemNode.update_modified_time\<close> (no method of the file system calls it).\<close>

definition update_modified_time :: "addr \<Rightarrow> vfs \<Rightarrow> vfs" where
  "update_modified_time a s =
     (let s1 = update_timestamp_metadata a Modified s in
      case obj s1 a of
        None \<Rightarrow> s1
      | Some n \<Rightarrow>
          (case parent n of
             None \<Rightarrow> s1
           | Some p \<Rightarrow> update_timestamp_metadata p Modified s1))"

text \<open>The constructors: a new object at the end of the store, its three timestamps one
  reading of the clock.\<close>

definition FileNode_init :: "string \<Rightarrow> addr option \<Rightarrow> content \<Rightarrow> vfs \<Rightarrow> addr \<times> vfs" where
  "FileNode_init nm par c s =
     (length (heap s),
      s\<lparr>heap := heap s @
           [\<lparr>name = nm, parent = par, created = clock s, modified = clock s,
             accessed = clock s, kind = FileNode c (len c)\<rparr>],
        clock := Suc (clock s)\<rparr>)"

definition DirectoryNode_init :: "string \<Rightarrow> addr option \<Rightarrow> vfs \<Rightarrow> addr \<times> vfs" where
  "DirectoryNode_init nm par s =
     (length (heap s),
      s\<lparr>heap := heap s @
           [\<lparr>name = nm, parent = par, created = clock s, modified = clock s,
             accessed = clock s, kind = DirectoryNode []\<rparr>],
        clock := Suc (clock s)\<rparr>)"

definition is_directory :: "vfs \<Rightarrow> addr \<Rightarrow> bool" where
  "is_directory s a =
     (case obj s a of
        None \<Rightarrow> False
      | Some n \<Rightarrow> (case kind n of DirectoryNode ch \<Rightarrow> True | FileNode c z \<Rightarrow> False))"

definition is_file :: "vfs \<Rightarrow> addr \<Rightarrow> bool" where
  "is_file s a =
     (case obj s a of
        None \<Rightarrow> False
      | Some n \<Rightarrow> (case kind n of DirectoryNode ch \<Rightarrow> False | FileNode c z \<Rightarrow> True))"

definition children :: "vfs \<Rightarrow> addr \<Rightarrow> (string \<times> addr) list" where
  "children s a =
     (case obj s a of
        None \<Rightarrow> []
      | Some n \<Rightarrow> (case kind n of DirectoryNode ch \<Rightarrow> ch | FileNode c z \<Rightarrow> []))"

definition set_children :: "(string \<times> addr) list \<Rightarrow> node \<Rightarrow> node" where
  "set_children ch n = n\<lparr>kind := DirectoryNode ch\<rparr>"

text \<open>\<open>DirectoryNode.add_child\<close>, its three statements in order.\<close>

definition add_child :: "addr \<Rightarrow> addr \<Rightarrow> vfs \<Rightarrow> vfs" where
  "add_child d c s =
     (case obj s c of
        None \<Rightarrow> s
      | Some cn \<Rightarrow>
          (let s1 = upd_node d (set_children (AList.update (name cn) c (children s d))) s;
               s2 = upd_node c (\<lambda>n. n\<lparr>parent := Some d\<rparr>) s1
           in update_timestamp_metadata d Modified s2))"

text \<open>\<open>DirectoryNode.remove_child\<close>.\<close>

definition remove_child :: "addr \<Rightarrow> string \<Rightarrow> vfs \<Rightarrow> vfs" where
  "remove_child d child_name s =
     (if child_name \<in> set (map fst (children s d))
      then update_timestamp_metadata d Modified
             (upd_node d (set_children (AList.delete child_name (children s d))) s)
      else s)"

text \<open>\<open>DirectoryNode.get_child\<close>.\<close>

definition get_child :: "vfs \<Rightarrow> addr \<Rightarrow> string \<Rightarrow> addr option" where
  "get_child s d child_name = map_of (children s d) child_name"

section \<open>The file system\<close>

text \<open>\<open>VirtualFileSystem.__init__\<close>, at the time \<open>t\<close>: the root is the object at address 0.\<close>

definition VirtualFileSystem_init :: "time \<Rightarrow> vfs" where
  "VirtualFileSystem_init t =
     (let (r, s) = DirectoryNode_init ''/'' None
                     \<lparr>heap = [], clock = t, root = 0, traversal_cache = []\<rparr>
      in s\<lparr>root := r, traversal_cache := [(''/'', r)]\<rparr>)"

text \<open>\<open>_normalize_path\<close>.\<close>

definition normalize_path :: "string \<Rightarrow> string" where
  "normalize_path path =
     (let p1 = (if path = [] then ''/'' else path);
          p2 = (if \<not> startswith p1 ''/'' then ''/'' @ p1 else p1)
      in if p2 \<noteq> ''/'' \<and> endswith p2 ''/'' then butlast p2 else p2)"

text \<open>The loop of \<open>_get_node_object_by_path\<close> over the path parts, from the node \<open>cur\<close>.\<close>

fun walk :: "vfs \<Rightarrow> addr \<Rightarrow> string list \<Rightarrow> addr option" where
  "walk s cur [] = Some cur"
| "walk s cur (part # parts) =
     (if part = [] then None
      else if \<not> is_directory s cur then None
      else (case get_child s cur part of
              None \<Rightarrow> None
            | Some c \<Rightarrow> walk s c parts))"

text \<open>\<open>_get_node_object_by_path\<close>: the cache first, then the root, then the walk, whose
  result is cached.\<close>

definition get_node_object_by_path :: "vfs \<Rightarrow> string \<Rightarrow> addr option \<times> vfs" where
  "get_node_object_by_path s path0 =
     (let path = normalize_path path0 in
      case map_of (traversal_cache s) path of
        Some a \<Rightarrow> (Some a, s)
      | None \<Rightarrow>
          if path = ''/'' then (Some (root s), s)
          else (case walk s (root s) (split_str slash (strip_slash path)) of
                  None \<Rightarrow> (None, s)
                | Some a \<Rightarrow>
                    (Some a, s\<lparr>traversal_cache := AList.update path a (traversal_cache s)\<rparr>)))"

text \<open>\<open>_get_parent_directory_and_name\<close>.  \<open>.group()\<close> on a failed search raises
  \<open>AttributeError\<close>.  The name is searched in the path as given, not in the normalized
  path.\<close>

definition get_parent_directory_and_name ::
  "vfs \<Rightarrow> string \<Rightarrow> (error + addr option \<times> string) \<times> vfs" where
  "get_parent_directory_and_name s path =
     (let normalized_path = normalize_path path in
      if path = ''/'' then (Inr (None, []), s)
      else
        (case re_parent_path normalized_path of
           None \<Rightarrow> (Inl AttributeError, s)
         | Some parent_path \<Rightarrow>
             (case re_leaf path of
                None \<Rightarrow> (Inl AttributeError, s)
              | Some m \<Rightarrow>
                  (let nm = filter (\<lambda>c. c \<noteq> slash) m;
                       (r, s1) = get_node_object_by_path s parent_path
                   in case r of
                        None \<Rightarrow> (Inr (None, nm), s1)
                      | Some a \<Rightarrow>
                          if is_directory s1 a then (Inr (Some a, nm), s1)
                          else (Inr (None, nm), s1)))))"

text \<open>\<open>_remove_changed_node_from_cache\<close>.\<close>

definition remove_changed_node_from_cache :: "string \<Rightarrow> vfs \<Rightarrow> vfs" where
  "remove_changed_node_from_cache cached_path s =
     (let normalized_path = normalize_path cached_path in
      s\<lparr>traversal_cache :=
          filter (\<lambda>(k, a). \<not> (k = normalized_path \<or> startswith k (normalized_path @ ''/'')))
            (traversal_cache s)\<rparr>)"

definition cache_set :: "string \<Rightarrow> addr \<Rightarrow> vfs \<Rightarrow> vfs" where
  "cache_set k a s = s\<lparr>traversal_cache := AList.update k a (traversal_cache s)\<rparr>"

text \<open>\<open>create_file\<close>.\<close>

definition create_file :: "vfs \<Rightarrow> string \<Rightarrow> content \<Rightarrow> (error + bool) \<times> vfs" where
  "create_file s path c =
     (let normalized_path = normalize_path path in
      case get_parent_directory_and_name s path of
        (Inl e, s1) \<Rightarrow> (Inl e, s1)
      | (Inr (None, file_name), s1) \<Rightarrow> (Inr False, s1)
      | (Inr (Some parent_dir, file_name), s1) \<Rightarrow>
          if file_name \<in> set (map fst (children s1 parent_dir)) then (Inr False, s1)
          else
            (let (new_file, s2) = FileNode_init file_name (Some parent_dir) c s1;
                 s3 = add_child parent_dir new_file s2
             in (Inr True, cache_set normalized_path new_file s3)))"

text \<open>\<open>FileNode.read\<close> and \<open>read_file\<close>: \<open>None\<close> is Python's \<open>None\<close>.\<close>

definition read_file :: "vfs \<Rightarrow> string \<Rightarrow> content option \<times> vfs" where
  "read_file s path =
     (let (r, s1) = get_node_object_by_path s path in
      case r of
        None \<Rightarrow> (None, s1)
      | Some a \<Rightarrow>
          (case obj s1 a of
             None \<Rightarrow> (None, s1)
           | Some n \<Rightarrow>
               (case kind n of
                  DirectoryNode ch \<Rightarrow> (None, s1)
                | FileNode c z \<Rightarrow> (Some c, update_timestamp_metadata a Accessed s1))))"

text \<open>\<open>FileNode.write\<close>.\<close>

definition FileNode_write :: "addr \<Rightarrow> content \<Rightarrow> vfs \<Rightarrow> vfs" where
  "FileNode_write a c s =
     (let s1 = upd_node a (\<lambda>n. n\<lparr>kind := FileNode c (len c)\<rparr>) s;
          s2 = update_timestamp_metadata a Created s1;
          s3 = update_timestamp_metadata a Modified s2
      in update_timestamp_metadata a Accessed s3)"

text \<open>\<open>write_file\<close>.\<close>

definition write_file :: "vfs \<Rightarrow> string \<Rightarrow> content \<Rightarrow> (error + bool) \<times> vfs" where
  "write_file s path c =
     (let (r, s1) = get_node_object_by_path s path in
      case r of
        None \<Rightarrow>
          (case get_parent_directory_and_name s1 path of
             (Inl e, s2) \<Rightarrow> (Inl e, s2)
           | (Inr (None, file_name), s2) \<Rightarrow> (Inr False, s2)
           | (Inr (Some parent_dir, file_name), s2) \<Rightarrow>
               (let (new_file, s3) = FileNode_init file_name (Some parent_dir) c s2;
                    s4 = add_child parent_dir new_file s3
                in (Inr True, cache_set (normalize_path path) new_file s4)))
      | Some a \<Rightarrow>
          if \<not> is_file s1 a then (Inr False, s1)
          else (Inr True, FileNode_write a c s1))"

text \<open>\<open>create_directory\<close>.\<close>

definition create_directory :: "vfs \<Rightarrow> string \<Rightarrow> (error + bool) \<times> vfs" where
  "create_directory s path =
     (case get_parent_directory_and_name s path of
        (Inl e, s1) \<Rightarrow> (Inl e, s1)
      | (Inr (None, dir_name), s1) \<Rightarrow> (Inr False, s1)
      | (Inr (Some parent_dir, dir_name), s1) \<Rightarrow>
          if dir_name \<in> set (map fst (children s1 parent_dir)) then (Inr False, s1)
          else
            (let (new_dir, s2) = DirectoryNode_init dir_name (Some parent_dir) s1;
                 s3 = add_child parent_dir new_dir s2
             in (Inr True, cache_set (normalize_path path) new_dir s3)))"

text \<open>\<open>delete\<close>.\<close>

definition delete :: "vfs \<Rightarrow> string \<Rightarrow> (error + bool) \<times> vfs" where
  "delete s path =
     (case get_parent_directory_and_name s path of
        (Inl e, s1) \<Rightarrow> (Inl e, s1)
      | (Inr (None, node_name), s1) \<Rightarrow> (Inr False, s1)
      | (Inr (Some parent_dir, node_name), s1) \<Rightarrow>
          (let (r, s2) = get_node_object_by_path s1 path in
           case r of
             None \<Rightarrow> (Inr False, s2)
           | Some node_object \<Rightarrow>
               if node_object = root s2 then (Inr False, s2)
               else
                 (let s3 = remove_child parent_dir node_name s2;
                      s4 = cache_set (normalize_path path) node_object s3;
                      s5 = remove_changed_node_from_cache path s4
                  in (Inr True, update_timestamp_metadata parent_dir Modified s5))))"

text \<open>\<open>rename\<close>.  The name passed to \<open>remove_child\<close> is the node's \<open>name\<close> attribute.\<close>

definition rename ::
  "(string \<Rightarrow> (string \<Rightarrow> string) option) \<Rightarrow> vfs \<Rightarrow> string \<Rightarrow> string \<Rightarrow> (error + bool) \<times> vfs"
  where
  "rename tmpl s path new_name =
     (case get_parent_directory_and_name s path of
        (Inl e, s1) \<Rightarrow> (Inl e, s1)
      | (Inr (None, node_name), s1) \<Rightarrow> (Inr False, s1)
      | (Inr (Some parent_dir, node_name), s1) \<Rightarrow>
          (case get_child s1 parent_dir node_name of
             None \<Rightarrow> (Inr False, s1)
           | Some node_object \<Rightarrow>
               (let old_name = (case obj s1 node_object of None \<Rightarrow> [] | Some n \<Rightarrow> name n);
                    s2 = remove_child parent_dir old_name s1;
                    s3 = upd_node node_object (\<lambda>n. n\<lparr>name := new_name\<rparr>) s2;
                    s4 = add_child parent_dir node_object s3;
                    s5 = remove_changed_node_from_cache path s4
                in case re_sub_leaf tmpl (''/'' @ new_name) path of
                     None \<Rightarrow> (Inl ReError, s5)
                   | Some new_path \<Rightarrow>
                       (Inr True, cache_set (normalize_path new_path) node_object s5))))"

section \<open>Serialization\<close>

text \<open>
  The UTF-8 codec of Python (\<open>bytes.decode('utf-8')\<close> and \<open>str.encode('utf-8')\<close>, both
  strict): \<open>None\<close> is \<open>UnicodeDecodeError\<close>, respectively \<open>UnicodeEncodeError\<close>.  The
  decoder accepts the well-formed sequences only: no overlong form, no surrogate, nothing
  above U+10FFFF.
\<close>

definition cont_byte :: "nat \<Rightarrow> bool" where
  "cont_byte b = (0x80 \<le> b \<and> b < 0xC0)"

fun utf8_decode :: "nat list \<Rightarrow> nat list option" where
  "utf8_decode [] = Some []"
| "utf8_decode (b0 # bs) =
     (if b0 < 0x80 then map_option ((#) b0) (utf8_decode bs)
      else if 0xC0 \<le> b0 \<and> b0 < 0xE0 then
        (case bs of
           b1 # r \<Rightarrow>
             (let c = (b0 - 0xC0) * 64 + (b1 - 0x80) in
              if cont_byte b1 \<and> 0x80 \<le> c
              then map_option ((#) c) (utf8_decode r) else None)
         | _ \<Rightarrow> None)
      else if 0xE0 \<le> b0 \<and> b0 < 0xF0 then
        (case bs of
           b1 # b2 # r \<Rightarrow>
             (let c = (b0 - 0xE0) * 4096 + (b1 - 0x80) * 64 + (b2 - 0x80) in
              if cont_byte b1 \<and> cont_byte b2 \<and> 0x800 \<le> c \<and> \<not> (0xD800 \<le> c \<and> c < 0xE000)
              then map_option ((#) c) (utf8_decode r) else None)
         | _ \<Rightarrow> None)
      else if 0xF0 \<le> b0 \<and> b0 < 0xF8 then
        (case bs of
           b1 # b2 # b3 # r \<Rightarrow>
             (let c = (b0 - 0xF0) * 262144 + (b1 - 0x80) * 4096 + (b2 - 0x80) * 64 + (b3 - 0x80) in
              if cont_byte b1 \<and> cont_byte b2 \<and> cont_byte b3 \<and> 0x10000 \<le> c \<and> c < 0x110000
              then map_option ((#) c) (utf8_decode r) else None)
         | _ \<Rightarrow> None)
      else None)"

definition utf8_encode_cp :: "nat \<Rightarrow> nat list option" where
  "utf8_encode_cp c =
     (if c < 0x80 then Some [c]
      else if c < 0x800 then Some [0xC0 + c div 64, 0x80 + c mod 64]
      else if c < 0x10000 then
        (if 0xD800 \<le> c \<and> c < 0xE000 then None
         else Some [0xE0 + c div 4096, 0x80 + (c div 64) mod 64, 0x80 + c mod 64])
      else if c < 0x110000 then
        Some [0xF0 + c div 262144, 0x80 + (c div 4096) mod 64, 0x80 + (c div 64) mod 64,
              0x80 + c mod 64]
      else None)"

fun utf8_encode :: "nat list \<Rightarrow> nat list option" where
  "utf8_encode [] = Some []"
| "utf8_encode (c # cs) =
     (case utf8_encode_cp c of
        None \<Rightarrow> None
      | Some bs \<Rightarrow> map_option ((@) bs) (utf8_encode cs))"

text \<open>
  The nested dictionaries that \<open>to_dict\<close> builds and \<open>from_dict\<close> reads: a file's entry
  (\<open>created\<close>, \<open>accessed\<close>, \<open>modified\<close>, and \<open>size\<close> and \<open>content\<close> where the keys are
  present) or a directory's (the three timestamps and \<open>children\<close>, empty where the key is
  absent).  \<open>isoformat\<close> and \<open>fromisoformat\<close> are inverse to each other on the timestamps of
  \<open>datetime.now()\<close>; the text of a timestamp is modelled by the timestamp.
\<close>

datatype sdata =
    SFile time time time "nat option" "content option"
  | SDir time time time "(string \<times> sdata) list"

text \<open>\<open>FileSystemNode.to_metadata\<close>.\<close>

definition to_metadata :: "node \<Rightarrow> error + sdata" where
  "to_metadata n =
     (case kind n of
        DirectoryNode ch \<Rightarrow> Inr (SDir (created n) (accessed n) (modified n) [])
      | FileNode c z \<Rightarrow>
          (case c of
             Bytes bs \<Rightarrow>
               (case utf8_decode bs of
                  None \<Rightarrow> Inl UnicodeDecodeError
                | Some t \<Rightarrow>
                    Inr (SFile (created n) (accessed n) (modified n) (Some z) (Some (Text t))))
           | Text t \<Rightarrow>
               Inr (SFile (created n) (accessed n) (modified n) (Some z) (Some (Text t)))))"

text \<open>\<open>FileNode.to_dict\<close>: the metadata, then \<open>size\<close> and the content as it is.\<close>

definition FileNode_to_dict :: "node \<Rightarrow> error + sdata" where
  "FileNode_to_dict n =
     (case to_metadata n of
        Inl e \<Rightarrow> Inl e
      | Inr md \<Rightarrow>
          (case kind n of
             FileNode c z \<Rightarrow> Inr (SFile (created n) (accessed n) (modified n) (Some z) (Some c))
           | DirectoryNode ch \<Rightarrow> Inr md))"

text \<open>The first exception of a list of results, or all the values.\<close>

fun collect :: "(error + 'a) list \<Rightarrow> error + 'a list" where
  "collect [] = Inr []"
| "collect (Inl e # rs) = Inl e"
| "collect (Inr x # rs) = (case collect rs of Inl e \<Rightarrow> Inl e | Inr xs \<Rightarrow> Inr (x # xs))"

fun with_children :: "sdata \<Rightarrow> (string \<times> sdata) list \<Rightarrow> sdata" where
  "with_children (SDir c a m old) kids = SDir c a m kids"
| "with_children (SFile c a m z b) kids = SFile c a m z b"

text \<open>
  \<open>DirectoryNode.to_dict\<close>.  The recursion follows the store, so it carries the number of
  nested calls still allowed, as Python's recursion limit does.
\<close>

fun DirectoryNode_to_dict :: "nat \<Rightarrow> vfs \<Rightarrow> addr \<Rightarrow> error + sdata" where
  "DirectoryNode_to_dict 0 s a = Inl RecursionError"
| "DirectoryNode_to_dict (Suc fuel) s a =
     (case obj s a of
        None \<Rightarrow> Inl DanglingReference
      | Some n \<Rightarrow>
          (case to_metadata n of
             Inl e \<Rightarrow> Inl e
           | Inr md \<Rightarrow>
               (case collect
                       (map (\<lambda>(child_name, child).
                               if is_directory s child then DirectoryNode_to_dict fuel s child
                               else (case obj s child of
                                       None \<Rightarrow> Inl DanglingReference
                                     | Some cn \<Rightarrow> to_metadata cn))
                          (children s a)) of
                  Inl e \<Rightarrow> Inl e
                | Inr ds \<Rightarrow> Inr (with_children md (zip (map fst (children s a)) ds)))))"

text \<open>\<open>VirtualFileSystem.to_dict\<close>: the root's \<open>to_dict\<close>, by the root's class.\<close>

definition to_dict :: "nat \<Rightarrow> vfs \<Rightarrow> error + sdata" where
  "to_dict fuel s =
     (if is_directory s (root s) then DirectoryNode_to_dict fuel s (root s)
      else (case obj s (root s) of
              None \<Rightarrow> Inl DanglingReference
            | Some n \<Rightarrow> FileNode_to_dict n))"

text \<open>\<open>_construct_node\<close> of \<open>from_dict\<close>, and its loop over the children of a directory.\<close>

fun construct_node :: "string \<Rightarrow> sdata \<Rightarrow> addr option \<Rightarrow> vfs \<Rightarrow> (error + addr) \<times> vfs"
  and construct_children :: "addr \<Rightarrow> (string \<times> sdata) list \<Rightarrow> vfs \<Rightarrow> (error + unit) \<times> vfs"
  where
  "construct_node nm (SFile c a m z b) par s =
     (let (file_node, s1) = FileNode_init nm par (Bytes []) s;
          s2 = upd_node file_node (\<lambda>n. n\<lparr>created := c\<rparr>) s1;
          s3 = upd_node file_node (\<lambda>n. n\<lparr>accessed := a\<rparr>) s2;
          s4 = upd_node file_node (\<lambda>n. n\<lparr>modified := m\<rparr>) s3;
          s5 = (case z of
                  None \<Rightarrow> s4
                | Some sz \<Rightarrow>
                    upd_node file_node
                      (\<lambda>n. n\<lparr>kind := (case kind n of
                                         FileNode c0 z0 \<Rightarrow> FileNode c0 sz
                                       | DirectoryNode ch \<Rightarrow> DirectoryNode ch)\<rparr>) s4)
      in case b of
           None \<Rightarrow> (Inr file_node, s5)
         | Some (Bytes bs) \<Rightarrow>
             (Inr file_node,
              upd_node file_node
                (\<lambda>n. n\<lparr>kind := (case kind n of
                                   FileNode c0 z0 \<Rightarrow> FileNode (Bytes bs) z0
                                 | DirectoryNode ch \<Rightarrow> DirectoryNode ch)\<rparr>) s5)
         | Some (Text t) \<Rightarrow>
             (case utf8_encode t of
                None \<Rightarrow> (Inl UnicodeEncodeError, s5)
              | Some bs \<Rightarrow>
                  (Inr file_node,
                   upd_node file_node
                     (\<lambda>n. n\<lparr>kind := (case kind n of
                                        FileNode c0 z0 \<Rightarrow> FileNode (Bytes bs) z0
                                      | DirectoryNode ch \<Rightarrow> DirectoryNode ch)\<rparr>) s5)))"
| "construct_node nm (SDir c a m kids) par s =
     (let (dir_node, s1) = DirectoryNode_init nm par s;
          s2 = upd_node dir_node (\<lambda>n. n\<lparr>created := c\<rparr>) s1;
          s3 = upd_node dir_node (\<lambda>n. n\<lparr>accessed := a\<rparr>) s2;
          s4 = upd_node dir_node (\<lambda>n. n\<lparr>modified := m\<rparr>) s3
      in case construct_children dir_node kids s4 of
           (Inl e, s5) \<Rightarrow> (Inl e, s5)
         | (Inr u, s5) \<Rightarrow> (Inr dir_node, s5))"
| "construct_children dir_node [] s = (Inr (), s)"
| "construct_children dir_node ((child_name, child_data) # kids) s =
     (case construct_node child_name child_data (Some dir_node) s of
        (Inl e, s1) \<Rightarrow> (Inl e, s1)
      | (Inr child_node, s1) \<Rightarrow> construct_children dir_node kids (add_child dir_node child_node s1))"

text \<open>\<open>_cache_persisted_data\<close> of \<open>from_dict\<close>, and its loop over the children; the number of
  nested calls still allowed comes first.\<close>

fun cache_persisted_data :: "nat \<Rightarrow> addr \<Rightarrow> string \<Rightarrow> vfs \<Rightarrow> (error + unit) \<times> vfs"
  and cache_children :: "nat \<Rightarrow> (string \<times> addr) list \<Rightarrow> string \<Rightarrow> vfs \<Rightarrow> (error + unit) \<times> vfs"
  where
  "cache_persisted_data 0 node current_path s = (Inl RecursionError, s)"
| "cache_persisted_data (Suc fuel) node current_path s =
     (let s1 = cache_set current_path node s in
      if is_directory s1 node then cache_children fuel (children s1 node) current_path s1
      else (Inr (), s1))"
| "cache_children fuel [] current_path s = (Inr (), s)"
| "cache_children fuel ((child_name, child_node) # kids) current_path s =
     (let child_path =
            (if current_path \<noteq> ''/''
             then rstrip_slash current_path @ ''/'' @ ''/'' @ child_name
             else ''/'' @ child_name)
      in case cache_persisted_data fuel child_node child_path s of
           (Inl e, s1) \<Rightarrow> (Inl e, s1)
         | (Inr u, s1) \<Rightarrow> cache_children fuel kids current_path s1)"

text \<open>\<open>from_dict\<close>, called at the time \<open>t\<close>: \<open>list(data.keys())[0]\<close> raises \<open>IndexError\<close> on an
  empty dictionary.\<close>

definition from_dict :: "nat \<Rightarrow> time \<Rightarrow> (string \<times> sdata) list \<Rightarrow> error + vfs" where
  "from_dict fuel t data =
     (let vfs0 = VirtualFileSystem_init t in
      case data of
        [] \<Rightarrow> Inl IndexError
      | (root_name, root_data) # rest \<Rightarrow>
          (case construct_node root_name root_data None vfs0 of
             (Inl e, s1) \<Rightarrow> Inl e
           | (Inr r, s1) \<Rightarrow>
               (case cache_persisted_data fuel r ''/'' (s1\<lparr>root := r\<rparr>) of
                  (Inl e, s2) \<Rightarrow> Inl e
                | (Inr u, s2) \<Rightarrow> Inr s2)))"

section \<open>Trees in the store\<close>








section \<open>Canonical paths\<close>

text \<open>
  A path segment is non-empty and has neither a separator nor a newline; the canonical
  path of the segments \<open>g1, ..., gn\<close> is \<open>/g1/.../gn\<close>.  A plain name, for \<open>rename\<close>, is
  non-empty and has neither a separator nor a backslash.
\<close>

definition segment :: "string \<Rightarrow> bool" where
  "segment g = (g \<noteq> [] \<and> slash \<notin> set g \<and> newline \<notin> set g)"


definition path_of :: "string list \<Rightarrow> string" where
  "path_of segs = concat (map (\<lambda>g. slash # g) segs)"

text \<open>The nodes on the walk along the parts of a path, from the node \<open>cur\<close> on: the store
  is a tree along the path when they are all different.\<close>

fun visited :: "vfs \<Rightarrow> addr \<Rightarrow> string list \<Rightarrow> addr list" where
  "visited s cur [] = [cur]"
| "visited s cur (part # parts) =
     (if part = [] then [cur]
      else if \<not> is_directory s cur then [cur]
      else (case get_child s cur part of
              None \<Rightarrow> [cur]
            | Some c \<Rightarrow> cur # visited s c parts))"

section \<open>Example states\<close>

text \<open>The scenario of the specification: \<open>/home\<close> and \<open>/home/notes.txt\<close> with content \<open>hi\<close>.\<close>

definition fs_home :: vfs where
  "fs_home =
     snd (create_file (snd (create_directory (VirtualFileSystem_init 0) ''/home''))
            ''/home/notes.txt'' (Bytes [104, 105]))"

text \<open>The empty file system with the directory \<open>/a\<close>.\<close>

definition fs_a :: vfs where
  "fs_a = snd (create_directory (VirtualFileSystem_init 0) ''/a'')"

text \<open>The scenario's file system, serialized, stored under the key \<open>/\<close> as
  \<open>update_json_storage\<close> does, and read back at the time the scenario ended.\<close>

definition fs_home_restored :: "error + vfs" where
  "fs_home_restored =
     (case to_dict 3 fs_home of
        Inl e \<Rightarrow> Inl e
      | Inr d \<Rightarrow> from_dict 3 (clock fs_home) [(''/'', d)])"






section \<open>The cache invariant of the specification\<close>

text \<open>The node that the walk from the root reaches along a normalized path, without the
  cache: the fallback of \<open>_get_node_object_by_path\<close>.\<close>

definition walk_path :: "vfs \<Rightarrow> string \<Rightarrow> addr option" where
  "walk_path s k =
     (if k = ''/'' then Some (root s)
      else walk s (root s) (split_str slash (strip_slash k)))"

text \<open>Every entry of the cache is the node that the walk reaches.\<close>

definition cache_coherent :: "vfs \<Rightarrow> bool" where
  "cache_coherent s = list_all (\<lambda>(k, a). walk_path s k = Some a) (traversal_cache s)"

section \<open>Evaluation of the example states\<close>

lemmas store_defs =
  VirtualFileSystem_init_def DirectoryNode_init_def FileNode_init_def upd_node_def obj_def
  update_timestamp_metadata_def add_child_def children_def set_children_def is_directory_def
  cache_set_def

lemma fs_home_eq [code]:
  "fs_home =
     \<lparr>heap =
        [\<lparr>name = ''/'', parent = None, created = 0, modified = 2, accessed = 0,
            kind = DirectoryNode [(''home'', 1)]\<rparr>,
         \<lparr>name = ''home'', parent = Some 0, created = 1, modified = 4, accessed = 1,
            kind = DirectoryNode [(''notes.txt'', 2)]\<rparr>,
         \<lparr>name = ''notes.txt'', parent = Some 1, created = 3, modified = 3, accessed = 3,
            kind = FileNode (Bytes [104, 105]) 2\<rparr>],
      clock = 5, root = 0,
      traversal_cache = [(''/'', 0), (''/home'', 1), (''/home/notes.txt'', 2)]\<rparr>"
  by code_simp

lemma fs_a_eq [code]:
  "fs_a =
     \<lparr>heap =
        [\<lparr>name = ''/'', parent = None, created = 0, modified = 2, accessed = 0,
            kind = DirectoryNode [(''a'', 1)]\<rparr>,
         \<lparr>name = ''a'', parent = Some 0, created = 1, modified = 1, accessed = 1,
            kind = DirectoryNode []\<rparr>],
      clock = 3, root = 0, traversal_cache = [(''/'', 0), (''/a'', 1)]\<rparr>"
  by code_simp

lemma to_dict_fs_home:
  "to_dict 3 fs_home =
     Inr (SDir 0 0 2
            [(''home'', SDir 1 1 4
                [(''notes.txt'', SFile 3 3 3 (Some 2) (Some (Text [104, 105])))])])"
  by code_simp

lemma fs_home_restored_eq [code]:
  "fs_home_restored =
     Inr \<lparr>heap =
        [\<lparr>name = ''/'', parent = None, created = 5, modified = 5, accessed = 5,
            kind = DirectoryNode []\<rparr>,
         \<lparr>name = ''/'', parent = None, created = 0, modified = 10, accessed = 0,
            kind = DirectoryNode [(''home'', 2)]\<rparr>,
         \<lparr>name = ''home'', parent = Some 1, created = 1, modified = 9, accessed = 1,
            kind = DirectoryNode [(''notes.txt'', 3)]\<rparr>,
         \<lparr>name = ''notes.txt'', parent = Some 2, created = 3, modified = 3, accessed = 3,
            kind = FileNode (Bytes [104, 105]) 2\<rparr>],
      clock = 11, root = 1,
      traversal_cache = [(''/'', 1), (''/home'', 2), (''/home//notes.txt'', 3)]\<rparr>"
  unfolding fs_home_restored_def to_dict_fs_home
  by (simp add: fs_home_eq from_dict_def store_defs utf8_encode_cp_def rstrip_slash_def
      numeral_3_eq_3)

section \<open>Path resolution leaves the nodes alone\<close>

lemma gnobp_frame:
  "get_node_object_by_path s p = (r, s') \<Longrightarrow>
     heap s' = heap s \<and> root s' = root s \<and> clock s' = clock s"
  by (auto simp: get_node_object_by_path_def Let_def split: option.splits if_splits)

lemma gnobp_cache_mono:
  "get_node_object_by_path s p = (r, s') \<Longrightarrow> map_of (traversal_cache s) k = Some a \<Longrightarrow>
     map_of (traversal_cache s') k = Some a"
  by (auto simp: get_node_object_by_path_def Let_def update_conv' split: option.splits if_splits)

lemma utm_simps:
  "heap (update_timestamp_metadata a f s) =
     (case obj s a of None \<Rightarrow> heap s | Some n \<Rightarrow> (heap s)[a := set_field f (clock s) n])"
  "root (update_timestamp_metadata a f s) = root s"
  "traversal_cache (update_timestamp_metadata a f s) = traversal_cache s"
  "clock (update_timestamp_metadata a f s) = Suc (clock s)"
  by (auto simp: update_timestamp_metadata_def upd_node_def split: option.splits)

lemma obj_heap_eq: "heap s' = heap s \<Longrightarrow> obj s' a = obj s a"
  by (simp add: obj_def)

section \<open>Reading a file\<close>

text \<open>
  Claim C9.  \<open>read_file\<close> changes no node's name, parent, children, content, size, created
  or modified timestamp: the stores before and after have the same objects once
  \<open>accessed\<close> is masked.  When it returns \<open>None\<close> (path not found, or a directory) the store
  is unchanged.  When it returns content, the path resolved to a file with that content
  and the only change of the store is that file's \<open>accessed\<close> timestamp, set to the current
  time.  Every entry of the traversal cache is still there afterwards, and the root is
  the same object.
\<close>

theorem read_file_frame:
  assumes "read_file s path = (r, s')"
  shows "map (\<lambda>n. n\<lparr>accessed := 0\<rparr>) (heap s') = map (\<lambda>n. n\<lparr>accessed := 0\<rparr>) (heap s)
    \<and> (r = None \<longrightarrow> heap s' = heap s)
    \<and> (\<forall>c. r = Some c \<longrightarrow>
          (\<exists>a n z. fst (get_node_object_by_path s path) = Some a \<and> obj s a = Some n \<and>
             kind n = FileNode c z \<and> heap s' = (heap s)[a := n\<lparr>accessed := clock s\<rparr>]))
    \<and> (\<forall>k a. map_of (traversal_cache s) k = Some a \<longrightarrow>
          map_of (traversal_cache s') k = Some a)
    \<and> root s' = root s"
proof -
  obtain q s1 where g: "get_node_object_by_path s path = (q, s1)"
    by (cases "get_node_object_by_path s path")
  note fr = gnobp_frame[OF g]
  note cm = gnobp_cache_mono[OF g]
  have ob: "\<And>a. obj s1 a = obj s a"
    using fr by (simp add: obj_def)
  have mp: "\<And>a n. obj s a = Some n \<Longrightarrow>
      map (\<lambda>n. n\<lparr>accessed := 0\<rparr>) ((heap s)[a := n\<lparr>accessed := clock s\<rparr>]) =
      map (\<lambda>n. n\<lparr>accessed := 0\<rparr>) (heap s)"
    by (auto simp: obj_def map_update list_eq_iff_nth_eq nth_list_update split: if_splits)
  show ?thesis
    using assms fr cm mp
    by (auto simp: read_file_def g utm_simps ob split: option.splits node_kind.splits)
qed

text \<open>The theorem at the scenario's file, which is read, and at its directory, which is
  not.\<close>

theorem read_file_frame_witness:
  "fst (read_file fs_home ''/home/notes.txt'') = Some (Bytes [104, 105])
   \<and> fst (read_file fs_home ''/home'') = None
   \<and> heap (snd (read_file fs_home ''/home'')) = heap fs_home
   \<and> root (snd (read_file fs_home ''/home/notes.txt'')) = root fs_home"
proof -
  have a: "fst (read_file fs_home ''/home/notes.txt'') = Some (Bytes [104, 105])"
    by code_simp
  have b: "fst (read_file fs_home ''/home'') = None"
    by code_simp
  have c: "read_file fs_home ''/home'' = (None, snd (read_file fs_home ''/home''))"
    using b by (cases "read_file fs_home ''/home''") simp
  have d: "read_file fs_home ''/home/notes.txt'' =
             (Some (Bytes [104, 105]), snd (read_file fs_home ''/home/notes.txt''))"
    using a by (cases "read_file fs_home ''/home/notes.txt''") simp
  show ?thesis
    using a b read_file_frame[OF c] read_file_frame[OF d] by simp
qed

section \<open>The name of a path is taken from the path as given\<close>

text \<open>
  Claim C3 (fails).  On the empty path, \<open>create_directory\<close>, \<open>create_file\<close>, \<open>delete\<close> and
  \<open>rename\<close> raise \<open>AttributeError\<close> in every state: the name is searched in the path as
  given, which has no separator, and \<open>.group()\<close> is called on \<open>None\<close>.  So does \<open>write_file\<close>
  on a new path without a separator, here \<open>abc\<close> in the empty file system.
\<close>

theorem crud_raises_without_separator:
  "fst (create_directory s []) = Inl AttributeError
   \<and> fst (create_file s [] c) = Inl AttributeError
   \<and> fst (delete s []) = Inl AttributeError
   \<and> fst (rename tmpl s [] new_name) = Inl AttributeError
   \<and> fst (write_file (VirtualFileSystem_init t) ''abc'' c) = Inl AttributeError"
  by (simp add: create_directory_def create_file_def delete_def rename_def write_file_def
      get_parent_directory_and_name_def get_node_object_by_path_def normalize_path_def
      re_parent_path_def re_leaf_def startswith_def endswith_def before_last_slash_def
      strip_slash_def rstrip_slash_def store_defs get_child_def)

text \<open>
  Claim C4 (fails).  In the file system with the directory \<open>/a\<close>, \<open>delete\<close> of \<open>/a/\<close> returns
  success: the parent is the root and the name, taken from the path as given, is empty, so
  \<open>remove_child\<close> removes nothing.  Afterwards \<open>a\<close> is still a child of the root and both
  \<open>/a/\<close> and \<open>/a\<close> resolve to it.
\<close>

theorem delete_trailing_separator_keeps_node:
  "fst (delete fs_a ''/a/'') = Inr True
   \<and> children (snd (delete fs_a ''/a/'')) (root fs_a) = [(''a'', 1)]
   \<and> fst (get_node_object_by_path (snd (delete fs_a ''/a/'')) ''/a/'') = Some 1
   \<and> fst (get_node_object_by_path (snd (delete fs_a ''/a/'')) ''/a'') = Some 1"
  by code_simp

section \<open>Paths with an empty segment\<close>

text \<open>
  Claim C8 (fails).  In the file system with the directory \<open>/a\<close>, \<open>create_file\<close> on \<open>/a//b\<close>
  succeeds and \<open>read_file\<close> on \<open>/a//b\<close> returns the content: the path is cached as given.  In
  the scenario's file system read back by \<open>from_dict\<close>, \<open>read_file\<close> on
  \<open>/home//notes.txt\<close> returns the content of \<open>/home/notes.txt\<close>: \<open>_cache_persisted_data\<close> joins
  the paths below the first level with two separators.
\<close>

theorem empty_segment_resolves:
  "fst (create_file fs_a ''/a//b'' (Bytes [7])) = Inr True
   \<and> fst (read_file (snd (create_file fs_a ''/a//b'' (Bytes [7]))) ''/a//b'') = Some (Bytes [7])
   \<and> (case fs_home_restored of
         Inl e \<Rightarrow> False
       | Inr s \<Rightarrow> fst (read_file s ''/home//notes.txt'') = Some (Bytes [104, 105]))"
  by code_simp

text \<open>
  Claim C1 (fails).  In the scenario's file system read back by \<open>from_dict\<close>, the cache maps
  \<open>/home//notes.txt\<close> to the file, and the walk along that path reaches nothing: the cache
  is not coherent.  In the empty file system after \<open>create_directory\<close> of \<open>/a/\<close>, the cache
  maps \<open>/a\<close> to the new directory, whose name is empty, and the walk along \<open>/a\<close> reaches
  nothing.
\<close>

theorem cache_incoherent_after_from_dict:
  "(case fs_home_restored of
      Inl e \<Rightarrow> False
    | Inr s \<Rightarrow> map_of (traversal_cache s) ''/home//notes.txt'' = Some 3
         \<and> walk_path s ''/home//notes.txt'' = None
         \<and> \<not> cache_coherent s)
   \<and> fst (create_directory (VirtualFileSystem_init 0) ''/a/'') = Inr True
   \<and> map_of (traversal_cache (snd (create_directory (VirtualFileSystem_init 0) ''/a/''))) ''/a''
       = Some 1
   \<and> walk_path (snd (create_directory (VirtualFileSystem_init 0) ''/a/'')) ''/a'' = None"
  by code_simp

section \<open>Serialization and back\<close>

text \<open>
  Claim C2 (fails).  The scenario's file system serializes to the directory \<open>/\<close> with
  modified time 2, holding \<open>home\<close> with modified time 4.  Read back by \<open>from_dict\<close>, the
  root's modified time is 10 and that of \<open>home\<close> is 9: \<open>add_child\<close> sets the directory's
  modified time to the current time after \<open>_construct_node\<close> has restored it.
\<close>

theorem round_trip_loses_modified:
  "to_dict 3 fs_home =
     Inr (SDir 0 0 2
            [(''home'', SDir 1 1 4
                [(''notes.txt'', SFile 3 3 3 (Some 2) (Some (Text [104, 105])))])])
   \<and> map_option modified (obj fs_home (root fs_home)) = Some 2
   \<and> get_child fs_home (root fs_home) ''home'' = Some 1
   \<and> map_option modified (obj fs_home 1) = Some 4
   \<and> (case fs_home_restored of
         Inl e \<Rightarrow> False
       | Inr s \<Rightarrow> map_option modified (obj s (root s)) = Some 10
                 \<and> get_child s (root s) ''home'' = Some 2
                 \<and> map_option modified (obj s 2) = Some 9)"
  by code_simp

section \<open>Writing an existing file\<close>

lemma FileNode_write_frame:
  "heap (FileNode_write a c s) ! b = heap s ! b \<or> b = a"
  "length (heap (FileNode_write a c s)) = length (heap s)"
  by (auto simp: FileNode_write_def utm_simps upd_node_def obj_def Let_def split: option.splits)

text \<open>
  Claim C6 (fails).  When the path resolves to a file, \<open>write_file\<close> succeeds and every
  object of the store but that file is as before: the modified timestamp of the
  containing directory is not updated.
\<close>

theorem write_file_existing_touches_file_only:
  assumes "fst (get_node_object_by_path s path) = Some a" and "is_file s a"
  shows "fst (write_file s path c) = Inr True
    \<and> (\<forall>b. b \<noteq> a \<longrightarrow> obj (snd (write_file s path c)) b = obj s b)"
proof -
  obtain s1 where g: "get_node_object_by_path s path = (Some a, s1)"
    using assms(1) by (cases "get_node_object_by_path s path") simp
  note fr = gnobp_frame[OF g]
  have f: "is_file s1 a"
    using assms(2) fr obj_heap_eq[of s1 s a] by (simp add: is_file_def)
  have h: "\<And>b. b \<noteq> a \<Longrightarrow> obj (FileNode_write a c s1) b = obj s b"
    using FileNode_write_frame[of a c s1] fr by (auto simp: obj_def)
  show ?thesis
    using f h by (simp add: write_file_def g)
qed

text \<open>The theorem at the scenario's file: its containing directory is object 1, which
  keeps its modified time 4.\<close>

theorem write_file_existing_witness:
  "fst (get_node_object_by_path fs_home ''/home/notes.txt'') = Some 2
   \<and> is_file fs_home 2
   \<and> map_option parent (obj fs_home 2) = Some (Some 1)
   \<and> fst (write_file fs_home ''/home/notes.txt'' (Bytes [1])) = Inr True
   \<and> obj (snd (write_file fs_home ''/home/notes.txt'' (Bytes [1]))) 1 = obj fs_home 1
   \<and> map_option modified (obj fs_home 1) = Some 4"
proof -
  have a: "fst (get_node_object_by_path fs_home ''/home/notes.txt'') = Some 2" by code_simp
  have b: "is_file fs_home 2" by code_simp
  have c: "map_option parent (obj fs_home 2) = Some (Some 1)" by code_simp
  have d: "map_option modified (obj fs_home 1) = Some 4" by code_simp
  show ?thesis
    using a b c d write_file_existing_touches_file_only[OF a b, of "Bytes [1]"] by simp
qed

section \<open>Creating a file or a directory\<close>

lemma gnobp_normalize:
  "normalize_path p = normalize_path q \<Longrightarrow>
     get_node_object_by_path s p = get_node_object_by_path s q"
  by (simp add: get_node_object_by_path_def)

lemma gnobp_Some_cases:
  assumes "get_node_object_by_path s p = (Some a, s1)"
  shows "map_of (traversal_cache s1) (normalize_path p) = Some a
     \<or> (normalize_path p = ''/'' \<and> map_of (traversal_cache s1) ''/'' = None \<and> a = root s1)"
  using assms
  by (auto simp: get_node_object_by_path_def Let_def update_conv' split: option.splits if_splits)

lemma gnobp_hit:
  "map_of (traversal_cache s) (normalize_path p) = Some a \<Longrightarrow>
     get_node_object_by_path s p = (Some a, s)"
  by (simp add: get_node_object_by_path_def)

lemma gnobp_root:
  "map_of (traversal_cache s) (normalize_path p) = None \<Longrightarrow> normalize_path p = ''/'' \<Longrightarrow>
     get_node_object_by_path s p = (Some (root s), s)"
  by (simp add: get_node_object_by_path_def)

lemma add_new_file:
  assumes "is_directory s pd"
  shows "is_directory (add_child pd (length (heap s)) (snd (FileNode_init nm par c s))) pd
    \<and> children (add_child pd (length (heap s)) (snd (FileNode_init nm par c s))) pd =
        AList.update nm (length (heap s)) (children s pd)
    \<and> obj (add_child pd (length (heap s)) (snd (FileNode_init nm par c s))) (length (heap s)) =
        Some \<lparr>name = nm, parent = Some pd, created = clock s, modified = clock s,
              accessed = clock s, kind = FileNode c (len c)\<rparr>
    \<and> root (add_child pd (length (heap s)) (snd (FileNode_init nm par c s))) = root s
    \<and> traversal_cache (add_child pd (length (heap s)) (snd (FileNode_init nm par c s))) =
        traversal_cache s"
  using assms
  by (auto simp: store_defs nth_append nth_list_update split: option.splits node_kind.splits if_splits)

lemma add_new_directory:
  assumes "is_directory s pd"
  shows "is_directory (add_child pd (length (heap s)) (snd (DirectoryNode_init nm par s))) pd
    \<and> children (add_child pd (length (heap s)) (snd (DirectoryNode_init nm par s))) pd =
        AList.update nm (length (heap s)) (children s pd)
    \<and> obj (add_child pd (length (heap s)) (snd (DirectoryNode_init nm par s))) (length (heap s)) =
        Some \<lparr>name = nm, parent = Some pd, created = clock s, modified = clock s,
              accessed = clock s, kind = DirectoryNode []\<rparr>
    \<and> root (add_child pd (length (heap s)) (snd (DirectoryNode_init nm par s))) = root s
    \<and> traversal_cache (add_child pd (length (heap s)) (snd (DirectoryNode_init nm par s))) =
        traversal_cache s"
  using assms
  by (auto simp: store_defs nth_append nth_list_update split: option.splits node_kind.splits if_splits)

lemma gpdn_Some:
  assumes "get_parent_directory_and_name s P = (Inr (Some pd, nm), s1)"
  shows "\<exists>pp m. P \<noteq> ''/'' \<and> re_parent_path (normalize_path P) = Some pp \<and> re_leaf P = Some m
           \<and> nm = filter (\<lambda>c. c \<noteq> slash) m
           \<and> get_node_object_by_path s pp = (Some pd, s1) \<and> is_directory s1 pd"
  using assms
  by (auto simp: get_parent_directory_and_name_def Let_def
      split: option.splits if_splits prod.splits)

lemma gpdn_intro:
  assumes "P \<noteq> ''/''" and "re_parent_path (normalize_path P) = Some pp" and "re_leaf P = Some m"
    and "get_node_object_by_path s pp = (Some pd, s1)" and "is_directory s1 pd"
  shows "get_parent_directory_and_name s P = (Inr (Some pd, filter (\<lambda>c. c \<noteq> slash) m), s1)"
  using assms by (simp add: get_parent_directory_and_name_def)

lemma heap_only:
  assumes "heap s' = heap s"
  shows "obj s' = obj s" and "is_directory s' = is_directory s" and "children s' = children s"
    and "is_file s' = is_file s" and "get_child s' = get_child s"
  using assms
  by (auto simp: obj_def is_directory_def children_def is_file_def get_child_def fun_eq_iff)

lemma cache_set_simps:
  "heap (cache_set k a s) = heap s" "root (cache_set k a s) = root s"
  "clock (cache_set k a s) = clock s"
  "traversal_cache (cache_set k a s) = AList.update k a (traversal_cache s)"
  by (simp_all add: cache_set_def)

text \<open>After a node was cached under the path, the parent of the path resolves as before.\<close>

lemma parent_resolves_again:
  assumes g: "get_node_object_by_path s pp = (Some pd, s1)"
    and free: "fst (get_node_object_by_path s P) = None"
    and r: "root s' = root s1"
    and c: "traversal_cache s' = AList.update (normalize_path P) new (traversal_cache s1)"
  shows "get_node_object_by_path s' pp = (Some pd, s')"
proof -
  have ne: "normalize_path pp \<noteq> normalize_path P"
  proof
    assume "normalize_path pp = normalize_path P"
    then have "get_node_object_by_path s pp = get_node_object_by_path s P"
      by (rule gnobp_normalize)
    with g free show False by simp
  qed
  from gnobp_Some_cases[OF g] show ?thesis
  proof
    assume "map_of (traversal_cache s1) (normalize_path pp) = Some pd"
    then have "map_of (traversal_cache s') (normalize_path pp) = Some pd"
      using ne by (simp add: c update_conv')
    then show ?thesis by (rule gnobp_hit)
  next
    assume h: "normalize_path pp = ''/'' \<and> map_of (traversal_cache s1) ''/'' = None \<and> pd = root s1"
    then have "map_of (traversal_cache s') (normalize_path pp) = None"
      using ne by (simp add: c update_conv')
    then show ?thesis
      using h r gnobp_root[of s' pp] by simp
  qed
qed

text \<open>
  What the two creating operations do where the decomposition of the path returns the
  directory \<open>pd\<close> and the leaf name \<open>nm\<close>, \<open>nm\<close> is not a child of \<open>pd\<close> and the path does not
  resolve: \<open>create_file\<close> succeeds, the path resolves to the new object, a file named \<open>nm\<close>
  in \<open>pd\<close> holding the given content, which \<open>read_file\<close> returns; \<open>create_directory\<close>
  succeeds and the path resolves to the new, empty directory.  In the state after either,
  both operations on the same path return failure and leave the whole state as it is.
\<close>

lemma create_then_create_again:
  assumes dec: "get_parent_directory_and_name s P = (Inr (Some pd, nm), s1)"
    and slot: "nm \<notin> set (map fst (children s pd))"
    and free: "fst (get_node_object_by_path s P) = None"
  shows "fst (create_file s P c) = Inr True
    \<and> get_node_object_by_path (snd (create_file s P c)) P =
         (Some (length (heap s)), snd (create_file s P c))
    \<and> obj (snd (create_file s P c)) (length (heap s)) =
         Some \<lparr>name = nm, parent = Some pd, created = clock s, modified = clock s,
               accessed = clock s, kind = FileNode c (len c)\<rparr>
    \<and> get_child (snd (create_file s P c)) pd nm = Some (length (heap s))
    \<and> fst (read_file (snd (create_file s P c)) P) = Some c
    \<and> create_file (snd (create_file s P c)) P c2 = (Inr False, snd (create_file s P c))
    \<and> create_directory (snd (create_file s P c)) P = (Inr False, snd (create_file s P c))
    \<and> fst (create_directory s P) = Inr True
    \<and> get_node_object_by_path (snd (create_directory s P)) P =
         (Some (length (heap s)), snd (create_directory s P))
    \<and> obj (snd (create_directory s P)) (length (heap s)) =
         Some \<lparr>name = nm, parent = Some pd, created = clock s, modified = clock s,
               accessed = clock s, kind = DirectoryNode []\<rparr>
    \<and> get_child (snd (create_directory s P)) pd nm = Some (length (heap s))
    \<and> create_file (snd (create_directory s P)) P c2 = (Inr False, snd (create_directory s P))
    \<and> create_directory (snd (create_directory s P)) P = (Inr False, snd (create_directory s P))"
proof -
  from gpdn_Some[OF dec] obtain pp m where
    P: "P \<noteq> ''/''" and pp: "re_parent_path (normalize_path P) = Some pp"
    and m: "re_leaf P = Some m" and nm: "nm = filter (\<lambda>c. c \<noteq> slash) m"
    and g: "get_node_object_by_path s pp = (Some pd, s1)" and d: "is_directory s1 pd"
    by blast
  note fr = gnobp_frame[OF g]
  have ch: "children s1 pd = children s pd"
    using fr heap_only(3)[of s1 s] by simp
  have slot1: "nm \<notin> set (map fst (children s1 pd))"
    using slot ch by simp
  define new where "new = length (heap s)"
  have new1: "length (heap s1) = new"
    using fr by (simp add: new_def)
  define sf where "sf = cache_set (normalize_path P) new (add_child pd new (snd (FileNode_init nm (Some pd) c s1)))"
  define sd where "sd = cache_set (normalize_path P) new (add_child pd new (snd (DirectoryNode_init nm (Some pd) s1)))"
  have cf: "create_file s P c = (Inr True, sf)"
    using slot1 by (simp add: create_file_def dec sf_def FileNode_init_def new1 Let_def)
  have cd: "create_directory s P = (Inr True, sd)"
    using slot1 by (simp add: create_directory_def dec sd_def DirectoryNode_init_def new1 Let_def)
  note af = add_new_file[OF d, of nm "Some pd" c, unfolded new1]
  note ad = add_new_directory[OF d, of nm "Some pd", unfolded new1]
  have sf_facts: "is_directory sf pd" "children sf pd = AList.update nm new (children s1 pd)"
    "obj sf new = Some \<lparr>name = nm, parent = Some pd, created = clock s, modified = clock s,
               accessed = clock s, kind = FileNode c (len c)\<rparr>"
    "root sf = root s1"
    "traversal_cache sf = AList.update (normalize_path P) new (traversal_cache s1)"
    using af fr by (simp_all add: sf_def cache_set_simps heap_only[OF cache_set_simps(1)])
  have sd_facts: "is_directory sd pd" "children sd pd = AList.update nm new (children s1 pd)"
    "obj sd new = Some \<lparr>name = nm, parent = Some pd, created = clock s, modified = clock s,
               accessed = clock s, kind = DirectoryNode []\<rparr>"
    "root sd = root s1"
    "traversal_cache sd = AList.update (normalize_path P) new (traversal_cache s1)"
    using ad fr by (simp_all add: sd_def cache_set_simps heap_only[OF cache_set_simps(1)])
  have rf: "get_node_object_by_path sf P = (Some new, sf)"
    by (rule gnobp_hit) (simp add: sf_facts update_conv')
  have rd: "get_node_object_by_path sd P = (Some new, sd)"
    by (rule gnobp_hit) (simp add: sd_facts update_conv')
  have read: "fst (read_file sf P) = Some c"
    by (simp add: read_file_def rf sf_facts)
  have pf: "get_parent_directory_and_name sf P = (Inr (Some pd, nm), sf)"
    unfolding nm
    by (rule gpdn_intro[OF P pp m parent_resolves_again[OF g free sf_facts(4) sf_facts(5)] sf_facts(1)])
  have pd': "get_parent_directory_and_name sd P = (Inr (Some pd, nm), sd)"
    unfolding nm
    by (rule gpdn_intro[OF P pp m parent_resolves_again[OF g free sd_facts(4) sd_facts(5)] sd_facts(1)])
  have inf: "nm \<in> set (map fst (children sf pd))"
    by (simp add: sf_facts dom_update)
  have ind: "nm \<in> set (map fst (children sd pd))"
    by (simp add: sd_facts dom_update)
  have again: "create_file sf P c2 = (Inr False, sf)" "create_directory sf P = (Inr False, sf)"
    "create_file sd P c2 = (Inr False, sd)" "create_directory sd P = (Inr False, sd)"
    using inf ind by (simp_all add: create_file_def create_directory_def pf pd')
  have gc: "get_child sf pd nm = Some new" "get_child sd pd nm = Some new"
    by (simp_all add: get_child_def sf_facts sd_facts update_conv')
  show ?thesis
    using cf cd rf rd read again gc sf_facts(3) sd_facts(3) by (simp add: new_def)
qed

text \<open>The lemma at \<open>/a/f\<close> in the file system with the directory \<open>/a\<close>, which is
  object 1.\<close>

lemma create_then_create_again_example:
  "get_parent_directory_and_name fs_a ''/a/f'' = (Inr (Some 1, ''f''), fs_a)
   \<and> ''f'' \<notin> set (map fst (children fs_a 1))
   \<and> fst (get_node_object_by_path fs_a ''/a/f'') = None
   \<and> fst (create_file fs_a ''/a/f'' (Bytes [7])) = Inr True
   \<and> fst (read_file (snd (create_file fs_a ''/a/f'' (Bytes [7]))) ''/a/f'') = Some (Bytes [7])
   \<and> create_file (snd (create_file fs_a ''/a/f'' (Bytes [7]))) ''/a/f'' (Bytes [8]) =
       (Inr False, snd (create_file fs_a ''/a/f'' (Bytes [7])))
   \<and> fst (create_directory fs_a ''/a/f'') = Inr True
   \<and> create_directory (snd (create_directory fs_a ''/a/f'')) ''/a/f'' =
       (Inr False, snd (create_directory fs_a ''/a/f''))"
proof -
  have dec: "get_parent_directory_and_name fs_a ''/a/f'' = (Inr (Some 1, ''f''), fs_a)"
    by code_simp
  have slot: "''f'' \<notin> set (map fst (children fs_a 1))"
    by code_simp
  have free: "fst (get_node_object_by_path fs_a ''/a/f'') = None"
    by code_simp
  show ?thesis
    using dec slot free
      create_then_create_again[OF dec slot free, of "Bytes [7]" "Bytes [8]"]
    by simp
qed

text \<open>
  Claim C7 (fails).  In the empty file system the path \<open>f\<close> normalizes to \<open>/f\<close>, does not
  resolve, and its parent, the root, is a directory; \<open>create_file\<close> and \<open>create_directory\<close>
  on \<open>f\<close> raise \<open>AttributeError\<close>, because the name is searched in the path as given.  After
  \<open>create_directory\<close> of \<open>/b/\<close>, which stores the new directory under the empty name, the
  path \<open>/c/\<close> normalizes to \<open>/c\<close>, does not resolve, and its parent is the root directory;
  \<open>create_file\<close> and \<open>create_directory\<close> on \<open>/c/\<close> return failure, because the name taken
  from \<open>/c/\<close> is empty as well.
\<close>

theorem create_fails_on_unoccupied_path:
  "normalize_path ''f'' = ''/f''
   \<and> fst (get_node_object_by_path (VirtualFileSystem_init 0) ''f'') = None
   \<and> re_parent_path (normalize_path ''f'') = Some []
   \<and> fst (get_node_object_by_path (VirtualFileSystem_init 0) []) = Some 0
   \<and> is_directory (VirtualFileSystem_init 0) 0
   \<and> fst (create_file (VirtualFileSystem_init 0) ''f'' (Bytes [7])) = Inl AttributeError
   \<and> fst (create_directory (VirtualFileSystem_init 0) ''f'') = Inl AttributeError
   \<and> fst (create_directory (VirtualFileSystem_init 0) ''/b/'') = Inr True
   \<and> normalize_path ''/c/'' = ''/c''
   \<and> fst (get_node_object_by_path (snd (create_directory (VirtualFileSystem_init 0) ''/b/'')) ''/c/'')
       = None
   \<and> fst (get_node_object_by_path (snd (create_directory (VirtualFileSystem_init 0) ''/b/'')) [])
       = Some 0
   \<and> is_directory (snd (create_directory (VirtualFileSystem_init 0) ''/b/'')) 0
   \<and> fst (create_file (snd (create_directory (VirtualFileSystem_init 0) ''/b/'')) ''/c/'' (Bytes [7]))
       = Inr False
   \<and> fst (create_directory (snd (create_directory (VirtualFileSystem_init 0) ''/b/'')) ''/c/'')
       = Inr False"
  by code_simp

section \<open>The UTF-8 codec\<close>








section \<open>Serialization of a tree\<close>









section \<open>Canonical paths and the regular expressions\<close>

lemma split_str_no_sep: "c \<notin> set l \<Longrightarrow> split_str c l = [l]"
  by (induction l) auto

lemma split_str_segments:
  "slash \<notin> set g \<Longrightarrow> list_all (\<lambda>h. slash \<notin> set h) gs \<Longrightarrow>
     split_str slash (g @ path_of gs) = g # gs"
proof (induction gs arbitrary: g)
  case Nil
  then show ?case by (simp add: path_of_def split_str_no_sep)
next
  case (Cons h gs)
  have "split_str slash (h @ path_of gs) = h # gs"
    using Cons by simp
  then have tl: "split_str slash (slash # h @ path_of gs) = [] # h # gs"
    by simp
  have "split_str slash (g @ slash # h @ path_of gs) = g # h # gs"
    using Cons.prems(1) tl by (induction g) auto
  then show ?case by (simp add: path_of_def)
qed

lemma path_of_snoc: "path_of (bs @ [g]) = path_of bs @ slash # g"
  by (simp add: path_of_def)

lemma path_of_Cons: "path_of (g # gs) = slash # g @ path_of gs"
  by (simp add: path_of_def)




lemma normalize_path_of:
  assumes "segs \<noteq> []" and "last segs \<noteq> []" and "slash \<notin> set (last segs)"
  shows "normalize_path (path_of segs) = path_of segs"
proof -
  obtain bs g where sn: "segs = bs @ [g]"
    using assms(1) by (metis rev_exhaust)
  have g0: "g \<noteq> []" "slash \<notin> set g"
    using assms(2,3) sn by auto
  have "last g \<in> set g"
    using g0(1) by simp
  then have g: "g \<noteq> []" "last g \<noteq> slash"
    using g0 by metis+
  have l: "last (path_of segs) \<noteq> slash" "path_of segs \<noteq> []"
    using g by (simp_all add: sn path_of_snoc)
  obtain h hs where c: "segs = h # hs"
    using assms(1) by (cases segs) auto
  have hd: "path_of segs = slash # h @ path_of hs"
    by (simp add: c path_of_Cons)
  have ne: "\<not> endswith (path_of segs) ''/''"
    using l by (auto simp: endswith_def last_drop dest!: arg_cong[where f = last])
  show ?thesis
    using l ne by (simp add: normalize_path_def startswith_def hd)
qed

lemma segment_last:
  "segs \<noteq> [] \<Longrightarrow> list_all segment segs \<Longrightarrow> segment (last segs)"
  by (induction segs) (auto split: if_splits)




lemma parts_canonical:
  assumes "segs \<noteq> []" and "list_all segment segs"
  shows "split_str slash (strip_slash (path_of segs)) = segs"
proof -
  obtain h hs where c: "segs = h # hs"
    using assms(1) by (cases segs) auto
  have h: "h \<noteq> []" "slash \<notin> set h" and hs: "list_all (\<lambda>h. slash \<notin> set h) hs"
    using assms(2) c by (auto simp: segment_def list_all_iff)
  have sl: "segment (last segs)"
    by (rule segment_last[OF assms])
  then have "last (last segs) \<in> set (last segs)" "slash \<notin> set (last segs)" "last segs \<noteq> []"
    by (simp_all add: segment_def)
  then have "last (last segs) \<noteq> slash"
    by metis
  moreover have "last (path_of segs) = last (last segs)" "path_of segs \<noteq> []"
    using assms(1) \<open>last segs \<noteq> []\<close>
    by (induction segs) (auto simp: path_of_def)
  ultimately have r: "rstrip_slash (path_of segs) = path_of segs"
    by (cases "path_of segs" rule: rev_cases) (auto simp: rstrip_slash_def)
  have "hd h \<noteq> slash"
    using h by (cases h) auto
  then have l: "dropWhile (\<lambda>c. c = slash) (path_of segs) = h @ path_of hs"
    using h by (cases h) (auto simp: c path_of_Cons)
  have "split_str slash (strip_slash (path_of segs)) = h # hs"
    by (simp add: strip_slash_def r l split_str_segments[OF h(2) hs])
  then show ?thesis
    by (simp add: c)
qed

section \<open>The walk along a path\<close>


lemma visited_nonempty: "visited s cur parts \<noteq> []"
  by (cases parts) (auto split: option.splits)

lemma visited_last: "walk s cur xs = Some a \<Longrightarrow> last (visited s cur xs) = a"
  by (induction xs arbitrary: cur) (auto simp: visited_nonempty split: option.splits if_splits)



lemma cache_coherentD:
  "cache_coherent s \<Longrightarrow> map_of (traversal_cache s) k = Some a \<Longrightarrow> walk_path s k = Some a"
  by (auto simp: cache_coherent_def list_all_iff dest!: map_of_SomeD)

text \<open>In a coherent state, what a canonical path resolves to is what the walk reaches.\<close>

lemma resolve_is_walk:
  assumes coh: "cache_coherent s" and segs: "list_all segment bs"
    and g: "get_node_object_by_path s (path_of bs) = (Some a, s1)"
  shows "walk s (root s) bs = Some a"
proof (cases "bs = []")
  case True
  have n: "normalize_path [] = ''/''"
    by (simp add: normalize_path_def startswith_def endswith_def)
  have g': "get_node_object_by_path s [] = (Some a, s1)"
    using g True by (simp add: path_of_def)
  have "a = root s"
    using g' cache_coherentD[OF coh, of "''/''" a]
    by (auto simp: get_node_object_by_path_def n walk_path_def Let_def split: option.splits)
  then show ?thesis
    using True by simp
next
  case False
  have sl: "segment (last bs)"
    by (rule segment_last[OF False segs])
  have n: "normalize_path (path_of bs) = path_of bs"
    using sl by (intro normalize_path_of[OF False]) (simp_all add: segment_def)
  have p: "split_str slash (strip_slash (path_of bs)) = bs"
    by (rule parts_canonical[OF False segs])
  obtain h hs where c: "bs = h # hs"
    using False by (cases bs) auto
  have "h \<noteq> []"
    using segs c by (simp add: segment_def)
  then have nr: "path_of bs \<noteq> ''/''"
    by (simp add: c path_of_Cons)
  show ?thesis
    using g cache_coherentD[OF coh, of "path_of bs" a] nr
    by (auto simp: get_node_object_by_path_def n p walk_path_def Let_def split: option.splits)
qed

section \<open>Renaming\<close>










end
